theory Spec2Isabelle
  imports Main "HOL-Library.Char_ord" "HOL-Library.List_Lexorder"
begin

section \<open>The call-signaling coordinator of \<^verbatim>\<open>call-provider.tsx\<close>\<close>

text \<open>
  The component \<^verbatim>\<open>CallProvider\<close> keeps the call session in React state cells and reacts
  to two kinds of events: broadcast messages arriving on the channel
  \<^verbatim>\<open>app-signaling\<close> (event \<^verbatim>\<open>call-signal\<close>) and local actions
  (\<^verbatim>\<open>initiateCall\<close>, \<^verbatim>\<open>acceptCall\<close>, \<^verbatim>\<open>rejectCall\<close>, \<^verbatim>\<open>cancelCall\<close>,
  \<^verbatim>\<open>unlockAudio\<close>). Each event is modelled as a function from the state cells to the
  updated cells together with the list of calls the code makes on its collaborators
  (the audio element, the broadcast channel, the router, \<^verbatim>\<open>alert\<close>, \<^verbatim>\<open>setTimeout\<close>),
  in program order. Console output is diagnostic only and is left out.

  A function created by a render reads the state cells as that render saw them, not as they
  are when it runs. The broadcast callback (subscribed by an effect that re-runs only after
  a later render) and \<^verbatim>\<open>unlockAudio\<close> (a \<^verbatim>\<open>useCallback\<close>) can run on cells that have
  moved on, so they take two states: the snapshot \<open>r\<close> of the render that created them,
  from which they read, and the current cells \<open>s\<close>, which the setters overwrite. The
  ref \<^verbatim>\<open>ringtoneRef.current\<close> is no state cell and is always read from \<open>s\<close>. The
  actions bound to the buttons of the overlay and \<^verbatim>\<open>initiateCall\<close> are created anew by
  every render and are modelled on the cells of the render that shows them.

  Strings are lists of characters ordered by character code, as the default comparison of
  \<^verbatim>\<open>Array.prototype.sort\<close> orders strings by code unit.
\<close>

subsection \<open>Types\<close>

datatype SignalType = Offer | Answer | Reject | Cancel

text \<open>
  \<^verbatim>\<open>SignalPayload\<close>: the optional fields are \<open>None\<close> when absent. The field
  \<^verbatim>\<open>type\<close> is \<open>sigType\<close> and the field \<^verbatim>\<open>roomId\<close> is \<open>sigRoomId\<close> here, the
  second to keep it apart from the state cell of the same name.
\<close>

record SignalPayload =
  sigType :: SignalType
  callerId :: string
  callerName :: "string option"
  receiverId :: string
  receiverName :: "string option"
  sigRoomId :: "string option"
  isVideo :: "bool option"

datatype CallStatus = Idle | Outgoing | Incoming | Connected

text \<open>The objects \<^verbatim>\<open>{ id, name }\<close> held in \<^verbatim>\<open>caller\<close> and \<^verbatim>\<open>receiver\<close>.\<close>

record peer =
  peer_id :: string
  peer_name :: string

text \<open>
  The state cells of \<^verbatim>\<open>CallProvider\<close>. \<open>ringtoneRef\<close> tells whether
  \<^verbatim>\<open>ringtoneRef.current\<close> holds the audio element (\<open>True\<close>) or is \<^verbatim>\<open>null\<close>.
\<close>

record CallState =
  status :: CallStatus
  caller :: "peer option"
  receiver :: "peer option"
  roomId :: "string option"
  isVideoCall :: bool
  userId :: "string option"
  userName :: "string option"
  audioUnlocked :: bool
  ringtoneRef :: bool

text \<open>Calls on the audio element; the volume is in hundredths (0.01 is 1, 0.7 is 70).\<close>

datatype audio_cmd = SetLoop bool | SetVolume nat | Play | Pause | SetCurrentTime nat

text \<open>The two callbacks handed to \<^verbatim>\<open>setTimeout\<close>: the one of the answer branch and the one of \<^verbatim>\<open>acceptCall\<close>.\<close>

datatype timer_cb = AnswerTimeout | AcceptTimeout

datatype effect =
    Audio audio_cmd
  | Send SignalPayload
  | Push string
  | Alert string
  | SetTimeout timer_cb nat

type_synonym outcome = "CallState \<times> effect list"

subsection \<open>JavaScript helpers\<close>

text \<open>Truthiness of a \<^verbatim>\<open>string | null\<close> (or optional string): \<^verbatim>\<open>null\<close>, \<^verbatim>\<open>undefined\<close> and the empty string are falsy.\<close>

fun truthy :: "string option \<Rightarrow> bool" where
  "truthy None = False"
| "truthy (Some x) = (x \<noteq> [])"

text \<open>\<^verbatim>\<open>x || d\<close> for an optional string \<open>x\<close> and a string \<open>d\<close>.\<close>

definition orElse :: "string option \<Rightarrow> string \<Rightarrow> string" where
  "orElse x d = (case x of None \<Rightarrow> d | Some y \<Rightarrow> if y = [] then d else y)"

text \<open>\<^verbatim>\<open>x || null\<close>.\<close>

definition orNull :: "string option \<Rightarrow> string option" where
  "orNull x = (if truthy x then x else None)"

text \<open>\<^verbatim>\<open>!!x\<close> for an optional boolean.\<close>

definition bangBang :: "bool option \<Rightarrow> bool" where
  "bangBang x = (case x of None \<Rightarrow> False | Some b \<Rightarrow> b)"

text \<open>A value of type \<^verbatim>\<open>string | undefined\<close> inside a template literal.\<close>

definition interpolate :: "string option \<Rightarrow> string" where
  "interpolate x = (case x of None \<Rightarrow> ''undefined'' | Some y \<Rightarrow> y)"

text \<open>\<^verbatim>\<open>Array.prototype.join\<close>.\<close>

fun join :: "string \<Rightarrow> string list \<Rightarrow> string" where
  "join sep [] = []"
| "join sep [x] = x"
| "join sep (x # y # ys) = x @ sep @ join sep (y # ys)"

subsection \<open>Room identifier and meeting URL\<close>

text \<open>\<^verbatim>\<open>[userId, receiverId].sort().join('-')\<close> of \<^verbatim>\<open>initiateCall\<close>.\<close>

definition newRoomId :: "string \<Rightarrow> string \<Rightarrow> string" where
  "newRoomId u r = join ''-'' (sort [u, r])"

text \<open>The template \<^verbatim>\<open>`/meeting?room=${room}&mode=${video ? 'video' : 'audio'}`\<close>.\<close>

definition meetingUrl :: "string \<Rightarrow> bool \<Rightarrow> string" where
  "meetingUrl room video =
     ''/meeting?room='' @ room @ ''&mode='' @ (if video then ''video'' else ''audio'')"

subsection \<open>Audio helpers\<close>

text \<open>
  \<^verbatim>\<open>playRing\<close> is a \<^verbatim>\<open>useCallback\<close> over \<^verbatim>\<open>audioUnlocked\<close> and \<^verbatim>\<open>status\<close>: the flag
  is the one of the snapshot \<open>r\<close>.
\<close>

definition playRing :: "CallState \<Rightarrow> CallState \<Rightarrow> effect list" where
  "playRing r s =
     (if ringtoneRef s \<and> audioUnlocked r
      then [Audio (SetLoop True), Audio (SetVolume 70), Audio Play]
      else [])"

definition stopRing :: "CallState \<Rightarrow> effect list" where
  "stopRing s = (if ringtoneRef s then [Audio Pause, Audio (SetCurrentTime 0)] else [])"

subsection \<open>The broadcast handler\<close>

text \<open>
  The callback registered with \<^verbatim>\<open>channel.on('broadcast', { event: 'call-signal' }, ...)\<close>.
  It closes over \<^verbatim>\<open>userId\<close>, \<^verbatim>\<open>status\<close>, \<^verbatim>\<open>playRing\<close> and \<^verbatim>\<open>stopRing\<close> of
  the render whose effect subscribed it: these are read from the snapshot \<open>r\<close>. The effect
  re-subscribes after a render in which one of them has changed; until then the callback
  keeps the old values while the cells \<open>s\<close> already hold the new ones. Each of the four
  \<^verbatim>\<open>if\<close> blocks is a function on the outcome accumulated so far.
\<close>

definition offerBranch ::
  "string \<Rightarrow> SignalPayload \<Rightarrow> CallState \<Rightarrow> CallState \<Rightarrow> outcome \<Rightarrow> outcome" where
  "offerBranch uid payload r s acc =
     (if receiverId payload = uid \<and> sigType payload = Offer
      then (case acc of (t, es) \<Rightarrow>
             (t\<lparr>caller := Some \<lparr>peer_id = callerId payload,
                                peer_name = orElse (callerName payload) ''Unknown''\<rparr>,
                roomId := orNull (sigRoomId payload),
                isVideoCall := bangBang (isVideo payload),
                status := Incoming\<rparr>,
              es @ playRing r s))
      else acc)"

definition answerBranch :: "string \<Rightarrow> SignalPayload \<Rightarrow> CallState \<Rightarrow> outcome \<Rightarrow> outcome" where
  "answerBranch uid payload s acc =
     (if callerId payload = uid \<and> sigType payload = Answer
      then (case acc of (t, es) \<Rightarrow>
             (t\<lparr>status := Connected\<rparr>,
              es @ stopRing s @
              [Push (meetingUrl (interpolate (sigRoomId payload)) (bangBang (isVideo payload))),
               SetTimeout AnswerTimeout 1000]))
      else acc)"

definition rejectBranch :: "string \<Rightarrow> SignalPayload \<Rightarrow> CallState \<Rightarrow> outcome \<Rightarrow> outcome" where
  "rejectBranch uid payload s acc =
     (if callerId payload = uid \<and> sigType payload = Reject
      then (case acc of (t, es) \<Rightarrow>
             (t\<lparr>status := Idle, receiver := None\<rparr>,
              es @ stopRing s @
              [Alert (orElse (receiverName payload) ''User'' @ '' declined the call.'')]))
      else acc)"

definition cancelBranch :: "string \<Rightarrow> SignalPayload \<Rightarrow> CallState \<Rightarrow> outcome \<Rightarrow> outcome" where
  "cancelBranch uid payload s acc =
     (if receiverId payload = uid \<and> sigType payload = Cancel
      then (case acc of (t, es) \<Rightarrow> (t\<lparr>status := Idle, caller := None\<rparr>, es @ stopRing s))
      else acc)"

text \<open>
  The subscribing effect returns at once while \<^verbatim>\<open>userId\<close> is falsy, so no handler exists
  then. The \<^verbatim>\<open>return\<close> inside the offer block leaves the whole callback. Both tests
  read the snapshot: the guard of the offer block is on the status of the render that
  subscribed.
\<close>

definition handleSignal :: "CallState \<Rightarrow> CallState \<Rightarrow> SignalPayload \<Rightarrow> outcome" where
  "handleSignal r s payload =
     (case userId r of
        None \<Rightarrow> (s, [])
      | Some uid \<Rightarrow>
          if uid = [] then (s, [])
          else if receiverId payload \<noteq> uid \<and> callerId payload \<noteq> uid then (s, [])
          else if receiverId payload = uid \<and> sigType payload = Offer \<and> status r \<noteq> Idle
            then (s, [])
          else cancelBranch uid payload s
                 (rejectBranch uid payload s
                   (answerBranch uid payload s
                     (offerBranch uid payload r s (s, [])))))"

text \<open>The callbacks run by the timer one second after an answer is handled or a call accepted.\<close>

fun fireTimeout :: "timer_cb \<Rightarrow> CallState \<Rightarrow> CallState" where
  "fireTimeout AnswerTimeout s = s\<lparr>status := Idle, receiver := None\<rparr>"
| "fireTimeout AcceptTimeout s = s\<lparr>status := Idle, caller := None\<rparr>"

subsection \<open>Local actions\<close>

text \<open>
  Each action awaits \<^verbatim>\<open>channel.send\<close>, whose promise resolves to a status string; the
  statements after the \<^verbatim>\<open>await\<close> are modelled as following the send.
\<close>

definition initiateCall :: "CallState \<Rightarrow> string \<Rightarrow> string \<Rightarrow> bool \<Rightarrow> outcome" where
  "initiateCall s rid rname video =
     (case (userId s, userName s) of
        (Some uid, Some uname) \<Rightarrow>
          if uid = [] \<or> uname = [] then (s, [])
          else
            let room = newRoomId uid rid in
            (s\<lparr>audioUnlocked := True,
               roomId := Some room,
               receiver := Some \<lparr>peer_id = rid, peer_name = rname\<rparr>,
               isVideoCall := video,
               status := Outgoing\<rparr>,
             (if ringtoneRef s
              then [Audio (SetLoop True), Audio (SetVolume 70), Audio Play]
              else []) @
             [Send \<lparr>sigType = Offer, callerId = uid, callerName = Some uname,
                    receiverId = rid, receiverName = None,
                    sigRoomId = Some room, isVideo = Some video\<rparr>])
      | _ \<Rightarrow> (s, []))"

definition acceptCall :: "CallState \<Rightarrow> outcome" where
  "acceptCall s =
     (case (caller s, roomId s, userId s) of
        (Some c, Some room, Some uid) \<Rightarrow>
          if room = [] \<or> uid = [] then (s, [])
          else
            (s\<lparr>status := Connected\<rparr>,
             stopRing s @
             [Send \<lparr>sigType = Answer, callerId = peer_id c, callerName = None,
                    receiverId = uid, receiverName = None,
                    sigRoomId = Some room, isVideo = Some (isVideoCall s)\<rparr>,
              Push (meetingUrl room (isVideoCall s)),
              SetTimeout AcceptTimeout 1000])
      | _ \<Rightarrow> (s, []))"

definition rejectCall :: "CallState \<Rightarrow> outcome" where
  "rejectCall s =
     (case (caller s, userId s) of
        (Some c, Some uid) \<Rightarrow>
          if uid = [] then (s, [])
          else
            (s\<lparr>status := Idle, caller := None\<rparr>,
             stopRing s @
             [Send \<lparr>sigType = Reject, callerId = peer_id c, callerName = None,
                    receiverId = uid, receiverName = userName s,
                    sigRoomId = None, isVideo = None\<rparr>])
      | _ \<Rightarrow> (s, []))"

definition cancelCall :: "CallState \<Rightarrow> outcome" where
  "cancelCall s =
     (case (receiver s, userId s) of
        (Some r, Some uid) \<Rightarrow>
          if uid = [] then (s, [])
          else
            (s\<lparr>status := Idle, receiver := None\<rparr>,
             stopRing s @
             [Send \<lparr>sigType = Cancel, callerId = uid, callerName = None,
                    receiverId = peer_id r, receiverName = None,
                    sigRoomId = None, isVideo = None\<rparr>])
      | _ \<Rightarrow> (s, []))"

subsection \<open>The buttons of the overlay\<close>



subsection \<open>Unlocking audio\<close>

text \<open>
  \<^verbatim>\<open>await ringtoneRef.current.play()\<close> either resolves or throws the rejection of the
  promise; which one is the browser's choice and is the argument \<open>playOk\<close>. A result
  \<open>Inl\<close> of \<open>unlockAudio\<close> would be an exception leaving the function.
  \<^verbatim>\<open>unlockAudio\<close> is a \<^verbatim>\<open>useCallback\<close> over \<^verbatim>\<open>audioUnlocked\<close>: its guard reads the
  flag of the render \<open>r\<close> that created the function object.
\<close>

datatype js_error = PlayRejected

definition awaitPlay :: "bool \<Rightarrow> js_error + unit" where
  "awaitPlay playOk = (if playOk then Inr () else Inl PlayRejected)"

definition unlockAudio :: "bool \<Rightarrow> CallState \<Rightarrow> CallState \<Rightarrow> js_error + outcome" where
  "unlockAudio playOk r s =
     (if audioUnlocked r \<or> \<not> ringtoneRef s then Inr (s, [])
      else
        (case awaitPlay playOk of
           Inr _ \<Rightarrow>
             Inr (s\<lparr>audioUnlocked := True\<rparr>,
                  [Audio (SetVolume 1), Audio Play,
                   Audio Pause, Audio (SetCurrentTime 0), Audio (SetVolume 70)])
         | Inl error \<Rightarrow>
             Inr (s\<lparr>audioUnlocked := True\<rparr>, [Audio (SetVolume 1), Audio Play])))"

text \<open>
  Calling \<^verbatim>\<open>unlockAudio\<close> once per element of the list, each call awaited before the next;
  an exception ends the sequence. A call is a pair: whether the caller has picked up the
  function of the latest render (then the snapshot is the current cells) or goes through
  the function object of the call before (then the snapshot stays), and whether \<^verbatim>\<open>play\<close>
  resolves.
\<close>

fun unlockAudioTimes :: "CallState \<Rightarrow> (bool \<times> bool) list \<Rightarrow> CallState \<Rightarrow> js_error + outcome" where
  "unlockAudioTimes r [] s = Inr (s, [])"
| "unlockAudioTimes r ((rerendered, playOk) # rest) s =
     (let r' = (if rerendered then s else r) in
      case unlockAudio playOk r' s of
        Inl e \<Rightarrow> Inl e
      | Inr (s', es) \<Rightarrow>
          (case unlockAudioTimes r' rest s' of
             Inl e \<Rightarrow> Inl e
           | Inr (s'', es') \<Rightarrow> Inr (s'', es @ es')))"

subsection \<open>States of the end-to-end scenarios\<close>

text \<open>The state cells as \<^verbatim>\<open>useState\<close> and \<^verbatim>\<open>useRef\<close> initialise them.\<close>

definition initialState :: CallState where
  "initialState =
     \<lparr>status = Idle, caller = None, receiver = None, roomId = None, isVideoCall = False,
      userId = None, userName = None, audioUnlocked = False, ringtoneRef = False\<rparr>"

text \<open>A mounted provider (the audio element is in the ref) whose identity is resolved.\<close>

definition readyState :: "string \<Rightarrow> string \<Rightarrow> CallState" where
  "readyState uid uname = initialState\<lparr>userId := Some uid, userName := Some uname, ringtoneRef := True\<rparr>"

text \<open>
  The messages of the scenarios between Alice (\<^verbatim>\<open>u1\<close>) and Bob (\<^verbatim>\<open>u2\<close>), as
  \<^verbatim>\<open>initiateCall\<close>, \<^verbatim>\<open>acceptCall\<close>, \<^verbatim>\<open>rejectCall\<close> and \<^verbatim>\<open>cancelCall\<close> build them,
  and the states the first scenario leads to.
\<close>

definition aliceOffer :: SignalPayload where
  "aliceOffer =
     \<lparr>sigType = Offer, callerId = ''u1'', callerName = Some ''Alice'',
      receiverId = ''u2'', receiverName = None,
      sigRoomId = Some ''u1-u2'', isVideo = Some True\<rparr>"

definition bobAnswer :: SignalPayload where
  "bobAnswer =
     \<lparr>sigType = Answer, callerId = ''u1'', callerName = None,
      receiverId = ''u2'', receiverName = None,
      sigRoomId = Some ''u1-u2'', isVideo = Some True\<rparr>"

definition bobReject :: SignalPayload where
  "bobReject =
     \<lparr>sigType = Reject, callerId = ''u1'', callerName = None,
      receiverId = ''u2'', receiverName = Some ''Bob'',
      sigRoomId = None, isVideo = None\<rparr>"

definition aliceCancel :: SignalPayload where
  "aliceCancel =
     \<lparr>sigType = Cancel, callerId = ''u1'', callerName = None,
      receiverId = ''u2'', receiverName = None,
      sigRoomId = None, isVideo = None\<rparr>"

definition aliceOutgoing :: CallState where
  "aliceOutgoing = fst (initiateCall (readyState ''u1'' ''Alice'') ''u2'' ''Bob'' True)"

definition bobIncoming :: CallState where
  "bobIncoming =
     fst (handleSignal (readyState ''u2'' ''Bob'') (readyState ''u2'' ''Bob'') aliceOffer)"

text \<open>An offer from Carol (\<^verbatim>\<open>u3\<close>) to Bob, as her \<^verbatim>\<open>initiateCall\<close> builds it.\<close>

definition carolOffer :: SignalPayload where
  "carolOffer =
     \<lparr>sigType = Offer, callerId = ''u3'', callerName = Some ''Carol'',
      receiverId = ''u2'', receiverName = None,
      sigRoomId = Some ''u2-u3'', isVideo = Some False\<rparr>"

subsection \<open>The earlier revision of the handler\<close>

text \<open>
  The earlier revision of the component has no \<^verbatim>\<open>audioUnlocked\<close> cell: its
  \<^verbatim>\<open>playRing\<close> rewinds and plays whenever the element is there, and its reject block
  shows no alert. The filter, the guard of the offer block and the state updates are the
  same text, and the callback closes over \<^verbatim>\<open>userId\<close> and \<^verbatim>\<open>status\<close> in the same way.
\<close>

definition playRingEarlier :: "CallState \<Rightarrow> effect list" where
  "playRingEarlier s = (if ringtoneRef s then [Audio (SetCurrentTime 0), Audio Play] else [])"

definition handleSignalEarlier :: "CallState \<Rightarrow> CallState \<Rightarrow> SignalPayload \<Rightarrow> outcome" where
  "handleSignalEarlier r s payload =
     (case userId r of
        None \<Rightarrow> (s, [])
      | Some uid \<Rightarrow>
          if uid = [] then (s, [])
          else if receiverId payload \<noteq> uid \<and> callerId payload \<noteq> uid then (s, [])
          else if receiverId payload = uid \<and> sigType payload = Offer \<and> status r \<noteq> Idle
            then (s, [])
          else
            let a = (if receiverId payload = uid \<and> sigType payload = Offer
                     then (s\<lparr>caller := Some \<lparr>peer_id = callerId payload,
                                               peer_name = orElse (callerName payload) ''Unknown''\<rparr>,
                             roomId := orNull (sigRoomId payload),
                             isVideoCall := bangBang (isVideo payload),
                             status := Incoming\<rparr>,
                           playRingEarlier s)
                     else (s, []));
                b = (if callerId payload = uid \<and> sigType payload = Answer
                     then ((fst a)\<lparr>status := Connected\<rparr>,
                           snd a @ stopRing s @
                           [Push (meetingUrl (interpolate (sigRoomId payload))
                                             (bangBang (isVideo payload))),
                            SetTimeout AnswerTimeout 1000])
                     else a);
                c = (if callerId payload = uid \<and> sigType payload = Reject
                     then ((fst b)\<lparr>status := Idle, receiver := None\<rparr>, snd b @ stopRing s)
                     else b)
            in (if receiverId payload = uid \<and> sigType payload = Cancel
                then ((fst c)\<lparr>status := Idle, caller := None\<rparr>, snd c @ stopRing s)
                else c))"

section \<open>Properties\<close>

subsection \<open>What each event does\<close>

text \<open>
  The handler, one message type at a time, subscribed by a render \<open>r\<close> whose \<^verbatim>\<open>userId\<close> is
  set and run on the cells \<open>s\<close>.
\<close>

lemma handleSignal_unresolved: "\<not> truthy (userId r) \<Longrightarrow> handleSignal r s p = (s, [])"
  by (cases "userId r") (simp_all add: handleSignal_def)

lemma handleSignal_offer:
  assumes "userId r = Some uid" "uid \<noteq> []" "sigType p = Offer"
  shows "handleSignal r s p =
          (if receiverId p = uid \<and> status r = Idle
           then (s\<lparr>caller := Some \<lparr>peer_id = callerId p,
                                   peer_name = orElse (callerName p) ''Unknown''\<rparr>,
                   roomId := orNull (sigRoomId p),
                   isVideoCall := bangBang (isVideo p),
                   status := Incoming\<rparr>, playRing r s)
           else (s, []))"
  using assms
  by (simp add: handleSignal_def offerBranch_def answerBranch_def rejectBranch_def cancelBranch_def)

lemma handleSignal_answer:
  assumes "userId r = Some uid" "uid \<noteq> []" "sigType p = Answer"
  shows "handleSignal r s p =
          (if callerId p = uid
           then (s\<lparr>status := Connected\<rparr>,
                 stopRing s @
                 [Push (meetingUrl (interpolate (sigRoomId p)) (bangBang (isVideo p))),
                  SetTimeout AnswerTimeout 1000])
           else (s, []))"
  using assms
  by (simp add: handleSignal_def offerBranch_def answerBranch_def rejectBranch_def cancelBranch_def)

lemma handleSignal_reject:
  assumes "userId r = Some uid" "uid \<noteq> []" "sigType p = Reject"
  shows "handleSignal r s p =
          (if callerId p = uid
           then (s\<lparr>status := Idle, receiver := None\<rparr>,
                 stopRing s @ [Alert (orElse (receiverName p) ''User'' @ '' declined the call.'')])
           else (s, []))"
  using assms
  by (simp add: handleSignal_def offerBranch_def answerBranch_def rejectBranch_def cancelBranch_def)

lemma handleSignal_cancel:
  assumes "userId r = Some uid" "uid \<noteq> []" "sigType p = Cancel"
  shows "handleSignal r s p =
          (if receiverId p = uid
           then (s\<lparr>status := Idle, caller := None\<rparr>, stopRing s)
           else (s, []))"
  using assms
  by (simp add: handleSignal_def offerBranch_def answerBranch_def rejectBranch_def cancelBranch_def)

lemma acceptCall_guarded:
  assumes "caller s = Some c" "roomId s = Some room" "room \<noteq> []" "userId s = Some uid" "uid \<noteq> []"
  shows "acceptCall s =
          (s\<lparr>status := Connected\<rparr>,
           stopRing s @
           [Send \<lparr>sigType = Answer, callerId = peer_id c, callerName = None,
                  receiverId = uid, receiverName = None,
                  sigRoomId = Some room, isVideo = Some (isVideoCall s)\<rparr>,
            Push (meetingUrl room (isVideoCall s)),
            SetTimeout AcceptTimeout 1000])"
  using assms by (simp add: acceptCall_def)

lemma acceptCall_noop_iff:
  "acceptCall s = (s, []) \<longleftrightarrow> caller s = None \<or> \<not> truthy (roomId s) \<or> \<not> truthy (userId s)"
  by (cases "caller s"; cases "roomId s"; cases "userId s") (simp_all add: acceptCall_def)

lemma rejectCall_guarded:
  assumes "caller s = Some c" "userId s = Some uid" "uid \<noteq> []"
  shows "rejectCall s =
          (s\<lparr>status := Idle, caller := None\<rparr>,
           stopRing s @
           [Send \<lparr>sigType = Reject, callerId = peer_id c, callerName = None,
                  receiverId = uid, receiverName = userName s,
                  sigRoomId = None, isVideo = None\<rparr>])"
  using assms by (simp add: rejectCall_def)

lemma cancelCall_guarded:
  assumes "receiver s = Some r" "userId s = Some uid" "uid \<noteq> []"
  shows "cancelCall s =
          (s\<lparr>status := Idle, receiver := None\<rparr>,
           stopRing s @
           [Send \<lparr>sigType = Cancel, callerId = uid, callerName = None,
                  receiverId = peer_id r, receiverName = None,
                  sigRoomId = None, isVideo = None\<rparr>])"
  using assms by (simp add: cancelCall_def)

lemma initiateCall_resolved:
  assumes "userId s = Some uid" "uid \<noteq> []" "userName s = Some uname" "uname \<noteq> []"
  shows "initiateCall s rid rname video =
          (s\<lparr>audioUnlocked := True,
             roomId := Some (newRoomId uid rid),
             receiver := Some \<lparr>peer_id = rid, peer_name = rname\<rparr>,
             isVideoCall := video,
             status := Outgoing\<rparr>,
           (if ringtoneRef s
            then [Audio (SetLoop True), Audio (SetVolume 70), Audio Play]
            else []) @
           [Send \<lparr>sigType = Offer, callerId = uid, callerName = Some uname,
                  receiverId = rid, receiverName = None,
                  sigRoomId = Some (newRoomId uid rid), isVideo = Some video\<rparr>])"
  using assms by (simp add: initiateCall_def Let_def)

lemma initiateCall_unresolved:
  "\<not> truthy (userId s) \<or> \<not> truthy (userName s) \<Longrightarrow> initiateCall s rid rname video = (s, [])"
  by (cases "userId s"; cases "userName s") (auto simp: initiateCall_def)


text \<open>The earlier revision of the handler updates the state cells in the same way.\<close>

lemma handleSignalEarlier_state: "fst (handleSignalEarlier r s p) = fst (handleSignal r s p)"
  by (cases "userId r")
     (simp_all add: handleSignalEarlier_def handleSignal_def offerBranch_def answerBranch_def
        rejectBranch_def cancelBranch_def Let_def)

subsection \<open>The room identifier\<close>

lemma newRoomId_if: "newRoomId a b = (if a \<le> b then a @ ''-'' @ b else b @ ''-'' @ a)"
  by (simp add: newRoomId_def)

lemma newRoomId_parts:
  "\<exists>x y. newRoomId a b = x @ ''-'' @ y \<and> {x, y} = {a, b}"
  by (cases "a \<le> b") (auto simp: newRoomId_if)

lemma takeWhile_sep:
  "CHR ''-'' \<notin> set x \<Longrightarrow> takeWhile (\<lambda>c. c \<noteq> CHR ''-'') (x @ ''-'' @ y) = x"
  by (induction x) auto

lemma sep_split:
  assumes "CHR ''-'' \<notin> set x" "CHR ''-'' \<notin> set x'" "x @ ''-'' @ y = x' @ ''-'' @ y'"
  shows "x = x' \<and> y = y'"
proof -
  have "takeWhile (\<lambda>c. c \<noteq> CHR ''-'') (x @ ''-'' @ y) = x"
    using assms(1) by (rule takeWhile_sep)
  moreover have "takeWhile (\<lambda>c. c \<noteq> CHR ''-'') (x' @ ''-'' @ y') = x'"
    using assms(2) by (rule takeWhile_sep)
  ultimately have "x = x'" using assms(3) by simp
  with assms(3) show ?thesis by simp
qed

text \<open>
  Claim C7, as amended. The room identifier does not depend on the order of the two
  identifiers. It determines the unordered pair of participants when no identifier
  contains the separator \<^verbatim>\<open>-\<close>, and also when all identifiers have one common length
  (as UUIDs have); for arbitrary strings it does not.
\<close>

theorem C7_room_id_symmetric_and_unique:
  "newRoomId a b = newRoomId b a \<and>
   (((\<forall>x \<in> {a, b, c, d}. CHR ''-'' \<notin> set x) \<or> (\<forall>x \<in> {a, b, c, d}. length x = n)) \<longrightarrow>
      newRoomId a b = newRoomId c d \<longrightarrow> {a, b} = {c, d})"
proof (intro conjI impI)
  show "newRoomId a b = newRoomId b a"
    by (auto simp: newRoomId_if)
next
  assume h: "(\<forall>x \<in> {a, b, c, d}. CHR ''-'' \<notin> set x) \<or> (\<forall>x \<in> {a, b, c, d}. length x = n)"
    and eq: "newRoomId a b = newRoomId c d"
  obtain x y where xy: "newRoomId a b = x @ ''-'' @ y" "{x, y} = {a, b}"
    using newRoomId_parts by blast
  obtain x' y' where xy': "newRoomId c d = x' @ ''-'' @ y'" "{x', y'} = {c, d}"
    using newRoomId_parts by blast
  have e: "x @ ''-'' @ y = x' @ ''-'' @ y'"
    using eq xy(1) xy'(1) by simp
  have mem: "x \<in> {a, b}" "x' \<in> {c, d}"
    using xy(2) xy'(2) by blast+
  from h have "x = x' \<and> y = y'"
  proof
    assume "\<forall>x \<in> {a, b, c, d}. CHR ''-'' \<notin> set x"
    with mem have "CHR ''-'' \<notin> set x" "CHR ''-'' \<notin> set x'" by blast+
    then show ?thesis using e by (rule sep_split)
  next
    assume "\<forall>x \<in> {a, b, c, d}. length x = n"
    with mem have "length x = length x'" by auto
    then show ?thesis using e by simp
  qed
  then show "{a, b} = {c, d}" using xy(2) xy'(2) by simp
qed

text \<open>The theorem at the identifiers of the scenarios, both of length 2.\<close>

theorem C7_witness:
  "newRoomId ''u1'' ''u2'' = newRoomId ''u2'' ''u1'' \<and> {''u1'', ''u2''} = {''u2'', ''u1''}"
  using C7_room_id_symmetric_and_unique [of "''u1''" "''u2''" "''u2''" "''u1''" 2]
  by simp

text \<open>
  Two different pairs of participants with one room identifier: the separator inside an
  identifier makes \<^verbatim>\<open>a-b-c\<close> readable in two ways.
\<close>

theorem C7_counterexample:
  "newRoomId ''a-b'' ''c'' = newRoomId ''a'' ''b-c'' \<and> {''a-b'', ''c''} \<noteq> {''a'', ''b-c''}"
  by (simp add: newRoomId_if doubleton_eq_iff)

subsection \<open>The states of the first scenario\<close>

lemma aliceOutgoing_eq:
  "aliceOutgoing =
     \<lparr>status = Outgoing, caller = None,
      receiver = Some \<lparr>peer_id = ''u2'', peer_name = ''Bob''\<rparr>,
      roomId = Some ''u1-u2'', isVideoCall = True, userId = Some ''u1'',
      userName = Some ''Alice'', audioUnlocked = True, ringtoneRef = True\<rparr>"
  by (simp add: aliceOutgoing_def initiateCall_def readyState_def initialState_def newRoomId_if Let_def)

lemma bobIncoming_eq:
  "bobIncoming =
     \<lparr>status = Incoming, caller = Some \<lparr>peer_id = ''u1'', peer_name = ''Alice''\<rparr>,
      receiver = None,
      roomId = Some ''u1-u2'', isVideoCall = True, userId = Some ''u2'',
      userName = Some ''Bob'', audioUnlocked = False, ringtoneRef = True\<rparr>"
  by (simp add: bobIncoming_def handleSignal_def offerBranch_def answerBranch_def
        rejectBranch_def cancelBranch_def aliceOffer_def readyState_def initialState_def
        orElse_def orNull_def bangBang_def)

subsection \<open>The end-to-end scenarios\<close>

text \<open>
  Claim C5. User \<^verbatim>\<open>u1\<close>, identity resolved and idle, calls \<^verbatim>\<open>u2\<close> with video: the
  state becomes outgoing with room \<^verbatim>\<open>u1-u2\<close> and one offer is sent, carrying caller
  \<^verbatim>\<open>u1\<close>, receiver \<^verbatim>\<open>u2\<close>, room \<^verbatim>\<open>u1-u2\<close> and the video flag. A provider of
  \<^verbatim>\<open>u2\<close> whose handler was subscribed in idle and that receives this offer becomes
  incoming, with the caller's id and display name, the room and the video flag stored.
\<close>

theorem C5_scenario_offer:
  assumes "status sA = Idle" "userId sA = Some ''u1''" "userName sA = Some nameA" "nameA \<noteq> []"
    and "status rB = Idle" "userId rB = Some ''u2''"
  shows "initiateCall sA ''u2'' nameB True =
           (sA\<lparr>audioUnlocked := True, roomId := Some ''u1-u2'',
               receiver := Some \<lparr>peer_id = ''u2'', peer_name = nameB\<rparr>,
               isVideoCall := True, status := Outgoing\<rparr>,
            (if ringtoneRef sA
             then [Audio (SetLoop True), Audio (SetVolume 70), Audio Play] else []) @
            [Send \<lparr>sigType = Offer, callerId = ''u1'', callerName = Some nameA,
                   receiverId = ''u2'', receiverName = None,
                   sigRoomId = Some ''u1-u2'', isVideo = Some True\<rparr>])
       \<and> fst (handleSignal rB sB
                \<lparr>sigType = Offer, callerId = ''u1'', callerName = Some nameA,
                 receiverId = ''u2'', receiverName = None,
                 sigRoomId = Some ''u1-u2'', isVideo = Some True\<rparr>) =
           sB\<lparr>caller := Some \<lparr>peer_id = ''u1'', peer_name = nameA\<rparr>,
               roomId := Some ''u1-u2'', isVideoCall := True, status := Incoming\<rparr>"
proof
  have r: "newRoomId ''u1'' ''u2'' = ''u1-u2''"
    by (simp add: newRoomId_if)
  show "initiateCall sA ''u2'' nameB True =
           (sA\<lparr>audioUnlocked := True, roomId := Some ''u1-u2'',
               receiver := Some \<lparr>peer_id = ''u2'', peer_name = nameB\<rparr>,
               isVideoCall := True, status := Outgoing\<rparr>,
            (if ringtoneRef sA
             then [Audio (SetLoop True), Audio (SetVolume 70), Audio Play] else []) @
            [Send \<lparr>sigType = Offer, callerId = ''u1'', callerName = Some nameA,
                   receiverId = ''u2'', receiverName = None,
                   sigRoomId = Some ''u1-u2'', isVideo = Some True\<rparr>])"
    using assms(2-4) by (simp add: initiateCall_resolved r)
next
  let ?offer = "\<lparr>sigType = Offer, callerId = ''u1'', callerName = Some nameA,
                 receiverId = ''u2'', receiverName = None,
                 sigRoomId = Some ''u1-u2'', isVideo = Some True\<rparr>"
  have "sigType ?offer = Offer" by simp
  from handleSignal_offer [OF assms(6) _ this]
  show "fst (handleSignal rB sB ?offer) =
           sB\<lparr>caller := Some \<lparr>peer_id = ''u1'', peer_name = nameA\<rparr>,
               roomId := Some ''u1-u2'', isVideoCall := True, status := Incoming\<rparr>"
    using assms(4,5) by (simp add: orElse_def orNull_def bangBang_def)
qed

text \<open>The scenario between two freshly mounted providers, Alice's and Bob's.\<close>

theorem C5_witness:
  "status (fst (initiateCall (readyState ''u1'' ''Alice'') ''u2'' ''Bob'' True)) = Outgoing
   \<and> roomId (fst (initiateCall (readyState ''u1'' ''Alice'') ''u2'' ''Bob'' True)) = Some ''u1-u2''
   \<and> status (fst (handleSignal (readyState ''u2'' ''Bob'') (readyState ''u2'' ''Bob'')
         \<lparr>sigType = Offer, callerId = ''u1'', callerName = Some ''Alice'',
          receiverId = ''u2'', receiverName = None,
          sigRoomId = Some ''u1-u2'', isVideo = Some True\<rparr>)) = Incoming"
  using C5_scenario_offer [of "readyState ''u1'' ''Alice''" "''Alice''" "readyState ''u2'' ''Bob''"
      "''Bob''" "readyState ''u2'' ''Bob''"]
  by (simp add: readyState_def initialState_def)

subsection \<open>Which messages the handler acts on\<close>

text \<open>
  Claim C1, as amended. For a handler subscribed by a render whose identity is set: an offer
  is acted on only when it names the local identity as receiver and the status of the
  subscribing render is idle; an offer that names another receiver, or that reaches a
  handler subscribed in any other status, leaves the cells unchanged and causes no call on
  a collaborator. The status tested is the one the handler captured, which is the current
  one once the effect has re-subscribed: a handler subscribed in idle accepts an offer
  whatever the status cell holds by then. An answer or a reject naming the local identity
  as caller, and a cancel naming it as receiver, are acted on in whatever status they
  arrive: the answer sets the status to connected, the reject sets it to idle and clears
  the receiver, the cancel sets it to idle and clears the caller. No other message changes
  anything. The earlier revision of the handler makes the same state changes.
\<close>

theorem C1_offer_guarded_others_not:
  assumes "userId r = Some uid" "uid \<noteq> []"
  shows "(sigType p = Offer \<and> (receiverId p \<noteq> uid \<or> status r \<noteq> Idle) \<longrightarrow>
            handleSignal r s p = (s, []))
       \<and> (sigType p = Offer \<and> receiverId p = uid \<and> status r = Idle \<longrightarrow>
            fst (handleSignal r s p) =
              s\<lparr>caller := Some \<lparr>peer_id = callerId p,
                                 peer_name = orElse (callerName p) ''Unknown''\<rparr>,
                roomId := orNull (sigRoomId p),
                isVideoCall := bangBang (isVideo p),
                status := Incoming\<rparr>)
       \<and> (sigType p = Answer \<and> callerId p = uid \<longrightarrow>
            fst (handleSignal r s p) = s\<lparr>status := Connected\<rparr>)
       \<and> (sigType p = Reject \<and> callerId p = uid \<longrightarrow>
            fst (handleSignal r s p) = s\<lparr>status := Idle, receiver := None\<rparr>)
       \<and> (sigType p = Cancel \<and> receiverId p = uid \<longrightarrow>
            fst (handleSignal r s p) = s\<lparr>status := Idle, caller := None\<rparr>)
       \<and> (handleSignal r s p \<noteq> (s, []) \<longrightarrow>
            (sigType p = Offer \<and> receiverId p = uid \<and> status r = Idle) \<or>
            ((sigType p = Answer \<or> sigType p = Reject) \<and> callerId p = uid) \<or>
            (sigType p = Cancel \<and> receiverId p = uid))
       \<and> fst (handleSignalEarlier r s p) = fst (handleSignal r s p)"
proof (cases "sigType p")
  case Offer
  from handleSignal_offer [OF assms this, of s] show ?thesis
    using Offer by (auto simp: handleSignalEarlier_state)
next
  case Answer
  from handleSignal_answer [OF assms this, of s] show ?thesis
    using Answer by (auto simp: handleSignalEarlier_state)
next
  case Reject
  from handleSignal_reject [OF assms this, of s] show ?thesis
    using Reject by (auto simp: handleSignalEarlier_state)
next
  case Cancel
  from handleSignal_cancel [OF assms this, of s] show ?thesis
    using Cancel by (auto simp: handleSignalEarlier_state)
qed

text \<open>
  The theorem at handlers that have re-subscribed, one message of each kind: an offer
  reaching Alice while her call to Bob is outgoing, Alice's offer reaching a third user and
  reaching Bob, Bob's answer reaching an idle Alice, a reject reaching Bob while Alice's
  call is incoming, a cancel reaching Alice while her own call is outgoing.
\<close>

theorem C1_witness:
  "handleSignal aliceOutgoing aliceOutgoing (aliceOffer\<lparr>callerId := ''u3'', receiverId := ''u1''\<rparr>) =
     (aliceOutgoing, [])
   \<and> handleSignal (readyState ''u1'' ''Alice'') (readyState ''u1'' ''Alice'') aliceOffer =
     (readyState ''u1'' ''Alice'', [])
   \<and> status (fst (handleSignal (readyState ''u2'' ''Bob'') (readyState ''u2'' ''Bob'') aliceOffer)) = Incoming
   \<and> status (fst (handleSignal (readyState ''u1'' ''Alice'') (readyState ''u1'' ''Alice'') bobAnswer)) = Connected
   \<and> status (fst (handleSignal bobIncoming bobIncoming
        (bobReject\<lparr>callerId := ''u2'', receiverId := ''u3''\<rparr>))) = Idle
   \<and> status (fst (handleSignal aliceOutgoing aliceOutgoing
        (aliceCancel\<lparr>callerId := ''u3'', receiverId := ''u1''\<rparr>))) = Idle"
proof -
  have a: "userId aliceOutgoing = Some ''u1''" "status aliceOutgoing = Outgoing"
    by (simp_all add: aliceOutgoing_eq)
  have b: "userId bobIncoming = Some ''u2''"
    by (simp add: bobIncoming_eq)
  have i: "userId (readyState ''u1'' ''Alice'') = Some ''u1''"
    "userId (readyState ''u2'' ''Bob'') = Some ''u2''"
    "status (readyState ''u1'' ''Alice'') = Idle" "status (readyState ''u2'' ''Bob'') = Idle"
    by (simp_all add: readyState_def initialState_def)
  have n: "''u1'' \<noteq> []" "''u2'' \<noteq> []" by simp_all
  have m: "sigType (aliceOffer\<lparr>callerId := ''u3'', receiverId := ''u1''\<rparr>) = Offer"
    "sigType aliceOffer = Offer" "receiverId aliceOffer = ''u2''"
    "sigType bobAnswer = Answer" "callerId bobAnswer = ''u1''"
    "sigType (bobReject\<lparr>callerId := ''u2'', receiverId := ''u3''\<rparr>) = Reject"
    "callerId (bobReject\<lparr>callerId := ''u2'', receiverId := ''u3''\<rparr>) = ''u2''"
    "sigType (aliceCancel\<lparr>callerId := ''u3'', receiverId := ''u1''\<rparr>) = Cancel"
    "receiverId (aliceCancel\<lparr>callerId := ''u3'', receiverId := ''u1''\<rparr>) = ''u1''"
    by (simp_all add: aliceOffer_def bobAnswer_def bobReject_def aliceCancel_def)
  show ?thesis
    using
      C1_offer_guarded_others_not [OF a(1) n(1),
        of "aliceOffer\<lparr>callerId := ''u3'', receiverId := ''u1''\<rparr>" aliceOutgoing]
      C1_offer_guarded_others_not [OF i(1) n(1), of aliceOffer "readyState ''u1'' ''Alice''"]
      C1_offer_guarded_others_not [OF i(2) n(2), of aliceOffer "readyState ''u2'' ''Bob''"]
      C1_offer_guarded_others_not [OF i(1) n(1), of bobAnswer "readyState ''u1'' ''Alice''"]
      C1_offer_guarded_others_not [OF b n(2),
        of "bobReject\<lparr>callerId := ''u2'', receiverId := ''u3''\<rparr>" bobIncoming]
      C1_offer_guarded_others_not [OF a(1) n(1),
        of "aliceCancel\<lparr>callerId := ''u3'', receiverId := ''u1''\<rparr>" aliceOutgoing]
    by (simp add: a(2) i(3,4) m)
qed

text \<open>
  An answer that reaches Alice's provider while it is idle (a duplicate, or the answer to a
  call she has cancelled) is acted on: the status becomes connected and the router is sent
  to the meeting. And Carol's offer, delivered to Bob's handler after Alice's offer but
  before the effect has re-subscribed it, is accepted although the status cell is incoming:
  the handler still holds the idle status of the render that subscribed it.
\<close>

theorem C1_counterexample:
  "status (readyState ''u1'' ''Alice'') = Idle
   \<and> sigType bobAnswer = Answer
   \<and> handleSignal (readyState ''u1'' ''Alice'') (readyState ''u1'' ''Alice'') bobAnswer =
       ((readyState ''u1'' ''Alice'')\<lparr>status := Connected\<rparr>,
        [Audio Pause, Audio (SetCurrentTime 0),
         Push ''/meeting?room=u1-u2&mode=video'', SetTimeout AnswerTimeout 1000])
   \<and> status bobIncoming = Incoming
   \<and> handleSignal (readyState ''u2'' ''Bob'') bobIncoming carolOffer =
       (bobIncoming\<lparr>caller := Some \<lparr>peer_id = ''u3'', peer_name = ''Carol''\<rparr>,
                     roomId := Some ''u2-u3'', isVideoCall := False\<rparr>, [])"
  by (simp add: handleSignal_def offerBranch_def answerBranch_def rejectBranch_def
        cancelBranch_def bobAnswer_def carolOffer_def readyState_def initialState_def
        stopRing_def playRing_def meetingUrl_def interpolate_def bangBang_def orElse_def
        orNull_def bobIncoming_eq)

text \<open>
  Claim C8. A message in which neither \<^verbatim>\<open>callerId\<close> nor \<^verbatim>\<open>receiverId\<close> is the local
  identity changes nothing and causes no call on a collaborator. Neither does the
  provider's own offer echoed back to a handler subscribed in outgoing. In general an offer is
  ignored by everyone but the receiver it names, and an answer or a reject by everyone but
  the caller it names.
\<close>

theorem C8_not_addressed_no_transition:
  "(userId r \<noteq> Some (callerId p) \<and> userId r \<noteq> Some (receiverId p) \<longrightarrow> handleSignal r s p = (s, []))
   \<and> (status r = Outgoing \<and> sigType p = Offer \<and> userId r = Some (callerId p) \<longrightarrow>
        handleSignal r s p = (s, []))
   \<and> (sigType p = Offer \<and> userId r \<noteq> Some (receiverId p) \<longrightarrow> handleSignal r s p = (s, []))
   \<and> ((sigType p = Answer \<or> sigType p = Reject) \<and> userId r \<noteq> Some (callerId p) \<longrightarrow>
        handleSignal r s p = (s, []))"
proof (cases "truthy (userId r)")
  case False
  then have "handleSignal r s p = (s, [])" by (rule handleSignal_unresolved)
  then show ?thesis by simp
next
  case True
  then obtain uid where u: "userId r = Some uid" "uid \<noteq> []"
    by (cases "userId r") auto
  show ?thesis
  proof (cases "sigType p")
    case Offer
    then show ?thesis using u by (auto simp: handleSignal_offer)
  next
    case Answer
    then show ?thesis using u by (auto simp: handleSignal_answer)
  next
    case Reject
    then show ?thesis using u by (auto simp: handleSignal_reject)
  next
    case Cancel
    then show ?thesis using u by (auto simp: handleSignal_cancel)
  qed
qed

text \<open>
  The theorem at Alice's offer received by a third user, at the same offer echoed back to
  Alice while her call is outgoing, and at an answer that names Alice as receiver only.
\<close>

theorem C8_witness:
  "handleSignal (readyState ''u3'' ''Carol'') (readyState ''u3'' ''Carol'') aliceOffer = (readyState ''u3'' ''Carol'', [])
   \<and> handleSignal aliceOutgoing aliceOutgoing aliceOffer = (aliceOutgoing, [])
   \<and> handleSignal aliceOutgoing aliceOutgoing (bobAnswer\<lparr>callerId := ''u3'', receiverId := ''u1''\<rparr>) = (aliceOutgoing, [])"
  using C8_not_addressed_no_transition [of "readyState ''u3'' ''Carol''" aliceOffer "readyState ''u3'' ''Carol''"]
    C8_not_addressed_no_transition [of aliceOutgoing aliceOffer aliceOutgoing]
    C8_not_addressed_no_transition [of aliceOutgoing "bobAnswer\<lparr>callerId := ''u3'', receiverId := ''u1''\<rparr>" aliceOutgoing]
  by (simp add: readyState_def initialState_def aliceOutgoing_eq aliceOffer_def bobAnswer_def)

subsection \<open>Terminal transitions\<close>

text \<open>
  Claim C2, as amended. On every terminal transition the status returns to idle and the
  peer cell of that transition is cleared: \<^verbatim>\<open>receiver\<close> when an answer or a reject is
  handled and on \<^verbatim>\<open>cancelCall\<close>, \<^verbatim>\<open>caller\<close> when a cancel is handled and on
  \<^verbatim>\<open>acceptCall\<close> and \<^verbatim>\<open>rejectCall\<close>. After an answer and after \<^verbatim>\<open>acceptCall\<close> the
  status is connected first, and the callback scheduled for one second later does the
  reset. No other cell changes: in particular \<^verbatim>\<open>roomId\<close> keeps its value, so an idle
  state may carry a room identifier.
\<close>

theorem C2_terminal_transitions:
  assumes "userId r = Some uid" "userId s = Some uid" "uid \<noteq> []"
  shows "(sigType p = Answer \<and> callerId p = uid \<longrightarrow>
            SetTimeout AnswerTimeout 1000 \<in> set (snd (handleSignal r s p)) \<and>
            fireTimeout AnswerTimeout (fst (handleSignal r s p)) = s\<lparr>status := Idle, receiver := None\<rparr>)
       \<and> (sigType p = Reject \<and> callerId p = uid \<longrightarrow>
            fst (handleSignal r s p) = s\<lparr>status := Idle, receiver := None\<rparr>)
       \<and> (sigType p = Cancel \<and> receiverId p = uid \<longrightarrow>
            fst (handleSignal r s p) = s\<lparr>status := Idle, caller := None\<rparr>)
       \<and> (caller s \<noteq> None \<and> truthy (roomId s) \<longrightarrow>
            SetTimeout AcceptTimeout 1000 \<in> set (snd (acceptCall s)) \<and>
            fireTimeout AcceptTimeout (fst (acceptCall s)) = s\<lparr>status := Idle, caller := None\<rparr>)
       \<and> (caller s \<noteq> None \<longrightarrow> fst (rejectCall s) = s\<lparr>status := Idle, caller := None\<rparr>)
       \<and> (receiver s \<noteq> None \<longrightarrow> fst (cancelCall s) = s\<lparr>status := Idle, receiver := None\<rparr>)
       \<and> roomId (s\<lparr>status := Idle, receiver := None\<rparr>) = roomId s
       \<and> roomId (s\<lparr>status := Idle, caller := None\<rparr>) = roomId s"
proof (intro conjI impI)
  assume "sigType p = Answer \<and> callerId p = uid"
  then have h: "handleSignal r s p =
      (s\<lparr>status := Connected\<rparr>,
       stopRing s @
       [Push (meetingUrl (interpolate (sigRoomId p)) (bangBang (isVideo p))),
        SetTimeout AnswerTimeout 1000])"
    using assms(1,3) by (simp add: handleSignal_answer)
  show "SetTimeout AnswerTimeout 1000 \<in> set (snd (handleSignal r s p))"
    by (simp add: h)
  show "fireTimeout AnswerTimeout (fst (handleSignal r s p)) = s\<lparr>status := Idle, receiver := None\<rparr>"
    by (simp add: h)
next
  assume "sigType p = Reject \<and> callerId p = uid"
  then show "fst (handleSignal r s p) = s\<lparr>status := Idle, receiver := None\<rparr>"
    using assms(1,3) by (simp add: handleSignal_reject)
next
  assume "sigType p = Cancel \<and> receiverId p = uid"
  then show "fst (handleSignal r s p) = s\<lparr>status := Idle, caller := None\<rparr>"
    using assms(1,3) by (simp add: handleSignal_cancel)
next
  assume a: "caller s \<noteq> None \<and> truthy (roomId s)"
  then obtain c room where cr: "caller s = Some c" "roomId s = Some room" "room \<noteq> []"
    by (cases "roomId s") auto
  note h = acceptCall_guarded [OF cr assms(2,3)]
  show "SetTimeout AcceptTimeout 1000 \<in> set (snd (acceptCall s))"
    by (simp add: h)
  show "fireTimeout AcceptTimeout (fst (acceptCall s)) = s\<lparr>status := Idle, caller := None\<rparr>"
    by (simp add: h)
next
  assume "caller s \<noteq> None"
  then obtain c where "caller s = Some c" by auto
  from rejectCall_guarded [OF this assms(2,3)]
  show "fst (rejectCall s) = s\<lparr>status := Idle, caller := None\<rparr>" by simp
next
  assume "receiver s \<noteq> None"
  then obtain r where "receiver s = Some r" by auto
  from cancelCall_guarded [OF this assms(2,3)]
  show "fst (cancelCall s) = s\<lparr>status := Idle, receiver := None\<rparr>" by simp
qed simp_all

text \<open>The six transitions in the scenario between Alice and Bob; the room stays \<^verbatim>\<open>u1-u2\<close>.\<close>

theorem C2_witness:
  "fireTimeout AnswerTimeout (fst (handleSignal aliceOutgoing aliceOutgoing bobAnswer)) =
     aliceOutgoing\<lparr>status := Idle, receiver := None\<rparr>
   \<and> fst (handleSignal aliceOutgoing aliceOutgoing bobReject) = aliceOutgoing\<lparr>status := Idle, receiver := None\<rparr>
   \<and> fst (cancelCall aliceOutgoing) = aliceOutgoing\<lparr>status := Idle, receiver := None\<rparr>
   \<and> fst (handleSignal bobIncoming bobIncoming aliceCancel) = bobIncoming\<lparr>status := Idle, caller := None\<rparr>
   \<and> fireTimeout AcceptTimeout (fst (acceptCall bobIncoming)) = bobIncoming\<lparr>status := Idle, caller := None\<rparr>
   \<and> fst (rejectCall bobIncoming) = bobIncoming\<lparr>status := Idle, caller := None\<rparr>
   \<and> roomId (aliceOutgoing\<lparr>status := Idle, receiver := None\<rparr>) = Some ''u1-u2''
   \<and> roomId (bobIncoming\<lparr>status := Idle, caller := None\<rparr>) = Some ''u1-u2''"
proof -
  have a: "userId aliceOutgoing = Some ''u1''" "receiver aliceOutgoing \<noteq> None"
    "roomId aliceOutgoing = Some ''u1-u2''"
    by (simp_all add: aliceOutgoing_eq)
  have b: "userId bobIncoming = Some ''u2''" "caller bobIncoming \<noteq> None"
    "truthy (roomId bobIncoming)" "roomId bobIncoming = Some ''u1-u2''"
    by (simp_all add: bobIncoming_eq)
  have m: "sigType bobAnswer = Answer" "callerId bobAnswer = ''u1''"
    "sigType bobReject = Reject" "callerId bobReject = ''u1''"
    "sigType aliceCancel = Cancel" "receiverId aliceCancel = ''u2''"
    by (simp_all add: bobAnswer_def bobReject_def aliceCancel_def)
  show ?thesis
    using C2_terminal_transitions [of aliceOutgoing "''u1''" aliceOutgoing bobAnswer]
      C2_terminal_transitions [of aliceOutgoing "''u1''" aliceOutgoing bobReject]
      C2_terminal_transitions [of bobIncoming "''u2''" bobIncoming aliceCancel]
    by (simp add: a b m)
qed

text \<open>After Bob's reject Alice's provider is idle and still holds the room identifier.\<close>

theorem C2_counterexample:
  "status (fst (handleSignal aliceOutgoing aliceOutgoing bobReject)) = Idle
   \<and> roomId (fst (handleSignal aliceOutgoing aliceOutgoing bobReject)) = Some ''u1-u2''"
  by (simp add: handleSignal_def offerBranch_def answerBranch_def rejectBranch_def
        cancelBranch_def bobReject_def aliceOutgoing_eq)

subsection \<open>Guards of the local actions\<close>

text \<open>
  Claim C3, as amended. \<^verbatim>\<open>initiateCall\<close> does not consult the status. Whenever the local
  identity is resolved (\<^verbatim>\<open>userId\<close> and \<^verbatim>\<open>userName\<close> non-empty) it stores the new
  receiver, room identifier and video flag, sets the status to outgoing and sends an offer,
  whatever the status was. It is a no-op exactly when the identity is not resolved.
\<close>

theorem C3_initiateCall_ignores_status:
  "(userId s = Some uid \<and> uid \<noteq> [] \<and> userName s = Some uname \<and> uname \<noteq> [] \<longrightarrow>
      initiateCall s rid rname video =
        (s\<lparr>audioUnlocked := True,
           roomId := Some (newRoomId uid rid),
           receiver := Some \<lparr>peer_id = rid, peer_name = rname\<rparr>,
           isVideoCall := video,
           status := Outgoing\<rparr>,
         (if ringtoneRef s
          then [Audio (SetLoop True), Audio (SetVolume 70), Audio Play]
          else []) @
         [Send \<lparr>sigType = Offer, callerId = uid, callerName = Some uname,
                receiverId = rid, receiverName = None,
                sigRoomId = Some (newRoomId uid rid), isVideo = Some video\<rparr>]))
   \<and> (initiateCall s rid rname video = (s, []) \<longleftrightarrow> \<not> truthy (userId s) \<or> \<not> truthy (userName s))"
proof (intro conjI impI)
  assume "userId s = Some uid \<and> uid \<noteq> [] \<and> userName s = Some uname \<and> uname \<noteq> []"
  then show "initiateCall s rid rname video =
        (s\<lparr>audioUnlocked := True,
           roomId := Some (newRoomId uid rid),
           receiver := Some \<lparr>peer_id = rid, peer_name = rname\<rparr>,
           isVideoCall := video,
           status := Outgoing\<rparr>,
         (if ringtoneRef s
          then [Audio (SetLoop True), Audio (SetVolume 70), Audio Play]
          else []) @
         [Send \<lparr>sigType = Offer, callerId = uid, callerName = Some uname,
                receiverId = rid, receiverName = None,
                sigRoomId = Some (newRoomId uid rid), isVideo = Some video\<rparr>])"
    by (simp add: initiateCall_resolved)
next
  show "initiateCall s rid rname video = (s, []) \<longleftrightarrow> \<not> truthy (userId s) \<or> \<not> truthy (userName s)"
  proof (cases "truthy (userId s) \<and> truthy (userName s)")
    case True
    then obtain uid uname where "userId s = Some uid" "uid \<noteq> []" "userName s = Some uname" "uname \<noteq> []"
      by (cases "userId s"; cases "userName s") auto
    then show ?thesis
      by (simp add: initiateCall_resolved)
  next
    case False
    then show ?thesis
      using initiateCall_unresolved [of s rid rname video] by auto
  qed
qed

text \<open>
  The theorem at a second call placed while Alice's call to Bob is outgoing, and at a call
  placed before the identity is resolved.
\<close>

theorem C3_witness:
  "initiateCall aliceOutgoing ''u3'' ''Carol'' False =
     (aliceOutgoing\<lparr>roomId := Some ''u1-u3'',
                     receiver := Some \<lparr>peer_id = ''u3'', peer_name = ''Carol''\<rparr>,
                     isVideoCall := False\<rparr>,
      [Audio (SetLoop True), Audio (SetVolume 70), Audio Play,
       Send \<lparr>sigType = Offer, callerId = ''u1'', callerName = Some ''Alice'',
              receiverId = ''u3'', receiverName = None,
              sigRoomId = Some ''u1-u3'', isVideo = Some False\<rparr>])
   \<and> initiateCall initialState ''u3'' ''Carol'' False = (initialState, [])"
  using C3_initiateCall_ignores_status [of aliceOutgoing "''u1''" "''Alice''" "''u3''" "''Carol''" False]
    C3_initiateCall_ignores_status [of initialState "''u1''" "''Alice''" "''u3''" "''Carol''" False]
  by (simp add: aliceOutgoing_eq initialState_def newRoomId_if)

text \<open>
  While Alice's call to Bob is outgoing, a call to Carol replaces the receiver and the room
  identifier of the session and sends a second offer.
\<close>

theorem C3_counterexample:
  "status aliceOutgoing = Outgoing
   \<and> receiver aliceOutgoing = Some \<lparr>peer_id = ''u2'', peer_name = ''Bob''\<rparr>
   \<and> roomId aliceOutgoing = Some ''u1-u2''
   \<and> initiateCall aliceOutgoing ''u3'' ''Carol'' False =
       (aliceOutgoing\<lparr>roomId := Some ''u1-u3'',
                       receiver := Some \<lparr>peer_id = ''u3'', peer_name = ''Carol''\<rparr>,
                       isVideoCall := False\<rparr>,
        [Audio (SetLoop True), Audio (SetVolume 70), Audio Play,
         Send \<lparr>sigType = Offer, callerId = ''u1'', callerName = Some ''Alice'',
                receiverId = ''u3'', receiverName = None,
                sigRoomId = Some ''u1-u3'', isVideo = Some False\<rparr>])"
  by (simp add: aliceOutgoing_eq initiateCall_def newRoomId_if Let_def)



subsection \<open>The second scenario\<close>

text \<open>
  Claim C6. A receiver in the incoming state, with the caller and the room of the offer
  stored, calls \<^verbatim>\<open>acceptCall\<close>: the status becomes connected, one answer is sent that
  carries the caller's id, the receiver's own id, the stored room and the stored video
  flag, the router is sent to the meeting URL of that room with mode \<^verbatim>\<open>video\<close> or
  \<^verbatim>\<open>audio\<close> after the flag, and a callback is scheduled for 1000 ms later that returns
  the status to idle. The caller, in the outgoing state, handles that answer: the status
  becomes connected, the router is sent to the same URL, and the callback scheduled for
  1000 ms later returns the status to idle.
\<close>

theorem C6_accept_then_answer:
  assumes "status sB = Incoming" "caller sB = Some c" "roomId sB = Some room" "room \<noteq> []"
    and "userId sB = Some uB" "uB \<noteq> []"
    and "status sA = Outgoing" "userId rA = Some (peer_id c)" "peer_id c \<noteq> []"
  shows "acceptCall sB =
           (sB\<lparr>status := Connected\<rparr>,
            stopRing sB @
            [Send \<lparr>sigType = Answer, callerId = peer_id c, callerName = None,
                   receiverId = uB, receiverName = None,
                   sigRoomId = Some room, isVideo = Some (isVideoCall sB)\<rparr>,
             Push (''/meeting?room='' @ room @ ''&mode='' @
                   (if isVideoCall sB then ''video'' else ''audio'')),
             SetTimeout AcceptTimeout 1000])
       \<and> status (fireTimeout AcceptTimeout (fst (acceptCall sB))) = Idle
       \<and> handleSignal rA sA
           \<lparr>sigType = Answer, callerId = peer_id c, callerName = None,
            receiverId = uB, receiverName = None,
            sigRoomId = Some room, isVideo = Some (isVideoCall sB)\<rparr> =
           (sA\<lparr>status := Connected\<rparr>,
            stopRing sA @
            [Push (''/meeting?room='' @ room @ ''&mode='' @
                   (if isVideoCall sB then ''video'' else ''audio'')),
             SetTimeout AnswerTimeout 1000])
       \<and> status (fireTimeout AnswerTimeout
            (fst (handleSignal rA sA
               \<lparr>sigType = Answer, callerId = peer_id c, callerName = None,
                receiverId = uB, receiverName = None,
                sigRoomId = Some room, isVideo = Some (isVideoCall sB)\<rparr>))) = Idle"
proof -
  let ?answer = "\<lparr>sigType = Answer, callerId = peer_id c, callerName = None,
                  receiverId = uB, receiverName = None,
                  sigRoomId = Some room, isVideo = Some (isVideoCall sB)\<rparr>"
  note acc = acceptCall_guarded [OF assms(2-6)]
  have "sigType ?answer = Answer" by simp
  note ans = handleSignal_answer [OF assms(8,9) this]
  have 1: "acceptCall sB =
           (sB\<lparr>status := Connected\<rparr>,
            stopRing sB @
            [Send ?answer,
             Push (''/meeting?room='' @ room @ ''&mode='' @
                   (if isVideoCall sB then ''video'' else ''audio'')),
             SetTimeout AcceptTimeout 1000])"
    by (simp add: acc meetingUrl_def)
  have 2: "handleSignal rA sA ?answer =
           (sA\<lparr>status := Connected\<rparr>,
            stopRing sA @
            [Push (''/meeting?room='' @ room @ ''&mode='' @
                   (if isVideoCall sB then ''video'' else ''audio'')),
             SetTimeout AnswerTimeout 1000])"
    by (simp add: ans meetingUrl_def interpolate_def bangBang_def)
  have 3: "status (fireTimeout AcceptTimeout (fst (acceptCall sB))) = Idle"
    by (simp add: acc)
  have 4: "status (fireTimeout AnswerTimeout (fst (handleSignal rA sA ?answer))) = Idle"
    by (simp add: ans)
  from 1 3 2 4 show ?thesis by (intro conjI)
qed

text \<open>The scenario at Bob's incoming state and Alice's outgoing state.\<close>

theorem C6_witness:
  "acceptCall bobIncoming =
     (bobIncoming\<lparr>status := Connected\<rparr>,
      [Audio Pause, Audio (SetCurrentTime 0), Send bobAnswer,
       Push ''/meeting?room=u1-u2&mode=video'', SetTimeout AcceptTimeout 1000])
   \<and> handleSignal aliceOutgoing aliceOutgoing bobAnswer =
     (aliceOutgoing\<lparr>status := Connected\<rparr>,
      [Audio Pause, Audio (SetCurrentTime 0),
       Push ''/meeting?room=u1-u2&mode=video'', SetTimeout AnswerTimeout 1000])
   \<and> status (fireTimeout AcceptTimeout (fst (acceptCall bobIncoming))) = Idle
   \<and> status (fireTimeout AnswerTimeout (fst (handleSignal aliceOutgoing aliceOutgoing bobAnswer))) = Idle"
  using C6_accept_then_answer [of bobIncoming "\<lparr>peer_id = ''u1'', peer_name = ''Alice''\<rparr>"
      "''u1-u2''" "''u2''" aliceOutgoing aliceOutgoing]
  by (simp add: bobIncoming_eq aliceOutgoing_eq bobAnswer_def stopRing_def)



subsection \<open>Unlocking audio\<close>

lemma unlockAudio_state:
  "\<exists>es. unlockAudio playOk r s =
          Inr (s\<lparr>audioUnlocked := audioUnlocked s \<or> (\<not> audioUnlocked r \<and> ringtoneRef s)\<rparr>, es)"
  by (cases playOk) (auto simp: unlockAudio_def awaitPlay_def)

lemma unlockAudio_skip:
  "audioUnlocked r \<or> \<not> ringtoneRef s \<Longrightarrow> unlockAudio playOk r s = Inr (s, [])"
  by (simp add: unlockAudio_def)

lemma unlockAudio_cycle:
  "\<not> audioUnlocked r \<Longrightarrow> ringtoneRef s \<Longrightarrow>
     unlockAudio playOk r s =
       Inr (s\<lparr>audioUnlocked := True\<rparr>,
            [Audio (SetVolume 1), Audio Play] @
            (if playOk then [Audio Pause, Audio (SetCurrentTime 0), Audio (SetVolume 70)] else []))"
  by (simp add: unlockAudio_def awaitPlay_def)

lemma unlockAudioTimes_step:
  assumes "r' = (if rerendered then s else r)"
    and "unlockAudio playOk r' s = Inr (s', es)"
    and "unlockAudioTimes r' rest s' = Inr (s'', es')"
  shows "unlockAudioTimes r ((rerendered, playOk) # rest) s = Inr (s'', es @ es')"
  using assms by (simp add: Let_def)

lemma unlockAudioTimes_returns:
  "\<exists>b es. unlockAudioTimes r calls s = Inr (s\<lparr>audioUnlocked := b\<rparr>, es)"
proof (induction calls arbitrary: r s)
  case Nil
  have "unlockAudioTimes r [] s = Inr (s\<lparr>audioUnlocked := audioUnlocked s\<rparr>, [])"
    by simp
  then show ?case by blast
next
  case (Cons call calls)
  obtain rerendered playOk where call: "call = (rerendered, playOk)"
    by (cases call)
  define r1 where "r1 = (if rerendered then s else r)"
  define f where "f = (audioUnlocked s \<or> (\<not> audioUnlocked r1 \<and> ringtoneRef s))"
  obtain es where 1: "unlockAudio playOk r1 s = Inr (s\<lparr>audioUnlocked := f\<rparr>, es)"
    using unlockAudio_state [of playOk r1 s] by (auto simp: f_def)
  obtain b es' where 2:
    "unlockAudioTimes r1 calls (s\<lparr>audioUnlocked := f\<rparr>) = Inr (s\<lparr>audioUnlocked := f, audioUnlocked := b\<rparr>, es')"
    using Cons.IH [of r1 "s\<lparr>audioUnlocked := f\<rparr>"] by blast
  have "unlockAudioTimes r (call # calls) s = Inr (s\<lparr>audioUnlocked := f, audioUnlocked := b\<rparr>, es @ es')"
    unfolding call using r1_def 1 2 by (rule unlockAudioTimes_step)
  then have "unlockAudioTimes r (call # calls) s = Inr (s\<lparr>audioUnlocked := b\<rparr>, es @ es')"
    by simp
  then show ?case by blast
qed

lemma unlockAudioTimes_state:
  "audioUnlocked r \<longrightarrow> audioUnlocked s \<Longrightarrow>
   \<exists>es. unlockAudioTimes r calls s =
          Inr (s\<lparr>audioUnlocked := audioUnlocked s \<or> (ringtoneRef s \<and> calls \<noteq> [])\<rparr>, es)"
proof (induction calls arbitrary: r s)
  case Nil
  show ?case by simp
next
  case (Cons call calls)
  obtain rerendered playOk where call: "call = (rerendered, playOk)"
    by (cases call)
  define r1 where "r1 = (if rerendered then s else r)"
  define f where "f = (audioUnlocked s \<or> (\<not> audioUnlocked r1 \<and> ringtoneRef s))"
  have inv: "audioUnlocked r1 \<longrightarrow> audioUnlocked s"
    using Cons.prems by (simp add: r1_def)
  have ff: "f = (audioUnlocked s \<or> ringtoneRef s)"
    using inv by (auto simp: f_def)
  obtain es where 1: "unlockAudio playOk r1 s = Inr (s\<lparr>audioUnlocked := f\<rparr>, es)"
    using unlockAudio_state [of playOk r1 s] by (auto simp: f_def)
  have "audioUnlocked r1 \<longrightarrow> audioUnlocked (s\<lparr>audioUnlocked := f\<rparr>)"
    using inv by (simp add: ff)
  from Cons.IH [OF this]
  obtain es' where 2: "unlockAudioTimes r1 calls (s\<lparr>audioUnlocked := f\<rparr>) =
      Inr (s\<lparr>audioUnlocked := f,
             audioUnlocked := audioUnlocked (s\<lparr>audioUnlocked := f\<rparr>) \<or>
                              (ringtoneRef (s\<lparr>audioUnlocked := f\<rparr>) \<and> calls \<noteq> [])\<rparr>, es')"
    by auto
  have b: "(f \<or> (ringtoneRef s \<and> calls \<noteq> [])) = (audioUnlocked s \<or> ringtoneRef s)"
    using ff by blast
  have "unlockAudioTimes r (call # calls) s =
      Inr (s\<lparr>audioUnlocked := f,
             audioUnlocked := audioUnlocked (s\<lparr>audioUnlocked := f\<rparr>) \<or>
                              (ringtoneRef (s\<lparr>audioUnlocked := f\<rparr>) \<and> calls \<noteq> [])\<rparr>, es @ es')"
    unfolding call using r1_def 1 2 by (rule unlockAudioTimes_step)
  then have "unlockAudioTimes r (call # calls) s =
      Inr (s\<lparr>audioUnlocked := audioUnlocked s \<or> ringtoneRef s\<rparr>, es @ es')"
    by (simp add: b)
  then show ?case by auto
qed

text \<open>
  Claim C9, as amended. A sequence of calls of \<^verbatim>\<open>unlockAudio\<close> never throws, whether
  \<^verbatim>\<open>play\<close> succeeds or fails, and changes no cell but the flag. For a function object
  whose captured flag is true only if the cell is (the flag is never reset): when the audio
  element is mounted, the flag is true after one call or more, and when it is not mounted
  the flag keeps its value. A second call leaves the cells as the first left them. Through
  the function of the next render it issues no audio command; through the same function
  object, which keeps the flag of its render, it issues none exactly when that flag was true
  or the element is not mounted, and otherwise repeats the play and pause cycle.
\<close>

theorem C9_unlockAudio_mounted:
  "(\<exists>b es. unlockAudioTimes r calls s = Inr (s\<lparr>audioUnlocked := b\<rparr>, es))
   \<and> ((audioUnlocked r \<longrightarrow> audioUnlocked s) \<longrightarrow>
        (\<exists>es. unlockAudioTimes r calls s =
                Inr (s\<lparr>audioUnlocked := audioUnlocked s \<or> (ringtoneRef s \<and> calls \<noteq> [])\<rparr>, es))
      \<and> (ringtoneRef s \<and> calls \<noteq> [] \<longrightarrow>
            (\<exists>s' es. unlockAudioTimes r calls s = Inr (s', es) \<and> audioUnlocked s'))
      \<and> (\<exists>s' es es'. unlockAudio playOk r s = Inr (s', es)
            \<and> unlockAudio playOk' s' s' = Inr (s', [])
            \<and> unlockAudio playOk' r s' = Inr (s', es')
            \<and> (es' = [] \<longleftrightarrow> audioUnlocked r \<or> \<not> ringtoneRef s)))"
proof (intro conjI impI)
  show "\<exists>b es. unlockAudioTimes r calls s = Inr (s\<lparr>audioUnlocked := b\<rparr>, es)"
    by (rule unlockAudioTimes_returns)
next
  assume inv: "audioUnlocked r \<longrightarrow> audioUnlocked s"
  then show "\<exists>es. unlockAudioTimes r calls s =
      Inr (s\<lparr>audioUnlocked := audioUnlocked s \<or> (ringtoneRef s \<and> calls \<noteq> [])\<rparr>, es)"
    by (rule unlockAudioTimes_state)
next
  assume inv: "audioUnlocked r \<longrightarrow> audioUnlocked s" and a: "ringtoneRef s \<and> calls \<noteq> []"
  obtain es where "unlockAudioTimes r calls s =
      Inr (s\<lparr>audioUnlocked := audioUnlocked s \<or> (ringtoneRef s \<and> calls \<noteq> [])\<rparr>, es)"
    using unlockAudioTimes_state [OF inv] by blast
  moreover have "audioUnlocked (s\<lparr>audioUnlocked := audioUnlocked s \<or> (ringtoneRef s \<and> calls \<noteq> [])\<rparr>)"
    using a by simp
  ultimately show "\<exists>s' es. unlockAudioTimes r calls s = Inr (s', es) \<and> audioUnlocked s'"
    by blast
next
  assume inv: "audioUnlocked r \<longrightarrow> audioUnlocked s"
  show "\<exists>s' es es'. unlockAudio playOk r s = Inr (s', es)
            \<and> unlockAudio playOk' s' s' = Inr (s', [])
            \<and> unlockAudio playOk' r s' = Inr (s', es')
            \<and> (es' = [] \<longleftrightarrow> audioUnlocked r \<or> \<not> ringtoneRef s)"
  proof (cases "audioUnlocked r \<or> \<not> ringtoneRef s")
    case True
    then have 1: "unlockAudio playOk r s = Inr (s, [])" "unlockAudio playOk' r s = Inr (s, [])"
      by (simp_all add: unlockAudio_skip)
    have "audioUnlocked s \<or> \<not> ringtoneRef s"
      using True inv by blast
    then have 2: "unlockAudio playOk' s s = Inr (s, [])"
      by (rule unlockAudio_skip)
    from 1 2 True show ?thesis by blast
  next
    case False
    let ?s1 = "s\<lparr>audioUnlocked := True\<rparr>"
    let ?cycle = "\<lambda>ok. [Audio (SetVolume 1), Audio Play] @
        (if ok then [Audio Pause, Audio (SetCurrentTime 0), Audio (SetVolume 70)] else [])"
    from False have f: "\<not> audioUnlocked r" "ringtoneRef s" "ringtoneRef ?s1"
      by simp_all
    have 1: "unlockAudio playOk r s = Inr (?s1, ?cycle playOk)"
      using unlockAudio_cycle [OF f(1,2)] by simp
    have 2: "unlockAudio playOk' ?s1 ?s1 = Inr (?s1, [])"
      by (simp add: unlockAudio_skip)
    have 3: "unlockAudio playOk' r ?s1 = Inr (?s1, ?cycle playOk')"
      using unlockAudio_cycle [OF f(1,3)] by simp
    have 4: "?cycle playOk' \<noteq> []" by simp
    from 1 2 3 4 False show ?thesis by blast
  qed
qed

text \<open>
  Three calls on a mounted provider, the second through the function object of the first,
  the third after a render; \<^verbatim>\<open>play\<close> is rejected in the first and the last.
\<close>

theorem C9_witness:
  "ringtoneRef (readyState ''u1'' ''Alice'') \<and> \<not> audioUnlocked (readyState ''u1'' ''Alice'')
   \<and> (\<exists>s' es. unlockAudioTimes (readyState ''u1'' ''Alice'')
                 [(True, False), (False, True), (True, False)] (readyState ''u1'' ''Alice'') = Inr (s', es)
         \<and> audioUnlocked s')"
  using C9_unlockAudio_mounted [of "readyState ''u1'' ''Alice''"
      "[(True, False), (False, True), (True, False)]" "readyState ''u1'' ''Alice''"]
  by (simp add: readyState_def initialState_def)

text \<open>
  Before the audio element is in the ref, \<^verbatim>\<open>unlockAudio\<close> returns at its guard: the flag
  is still false after any number of calls.
\<close>

theorem C9_counterexample:
  "\<not> audioUnlocked initialState
   \<and> unlockAudio True initialState initialState = Inr (initialState, [])
   \<and> unlockAudioTimes initialState [(True, True), (False, False), (True, True)] initialState =
       Inr (initialState, [])"
  by (simp add: unlockAudio_def initialState_def)

subsection \<open>An offer without a room identifier\<close>

text \<open>
  Claim C10, as amended. An offer naming the local identity as receiver that reaches a
  handler subscribed in idle without a room identifier (absent or empty) still leads to the
  incoming state, with \<^verbatim>\<open>roomId\<close> null. In that state \<^verbatim>\<open>acceptCall\<close> is a no-op: it
  sends no answer and does not reach connected. A local \<^verbatim>\<open>rejectCall\<close> and a cancel
  naming the local identity as receiver end the call. Of the messages received in that
  state, the only others that change anything are an answer and a reject naming the local
  identity as caller (the answer sets the status to connected, the reject to idle), and,
  while the handler has not yet re-subscribed and still holds the idle status, a further
  offer naming the local identity as receiver, which stores its own caller and room
  identifier. Once the handler has re-subscribed, no message supplies a room identifier.
\<close>

theorem C10_offer_without_room:
  assumes "userId r = Some uid" "userId s = Some uid" "uid \<noteq> []" "status r = Idle"
    and "sigType p = Offer" "receiverId p = uid" "\<not> truthy (sigRoomId p)"
    and "userId r' = Some uid"
  shows "fst (handleSignal r s p) =
           s\<lparr>caller := Some \<lparr>peer_id = callerId p, peer_name = orElse (callerName p) ''Unknown''\<rparr>,
             roomId := None, isVideoCall := bangBang (isVideo p), status := Incoming\<rparr>
       \<and> acceptCall (fst (handleSignal r s p)) = (fst (handleSignal r s p), [])
       \<and> status (fst (rejectCall (fst (handleSignal r s p)))) = Idle
       \<and> (sigType q = Cancel \<and> receiverId q = uid \<longrightarrow>
            status (fst (handleSignal r' (fst (handleSignal r s p)) q)) = Idle)
       \<and> (sigType q = Answer \<and> callerId q = uid \<longrightarrow>
            status (fst (handleSignal r' (fst (handleSignal r s p)) q)) = Connected)
       \<and> (sigType q = Reject \<and> callerId q = uid \<longrightarrow>
            status (fst (handleSignal r' (fst (handleSignal r s p)) q)) = Idle)
       \<and> (sigType q = Offer \<and> receiverId q = uid \<and> status r' = Idle \<longrightarrow>
            roomId (fst (handleSignal r' (fst (handleSignal r s p)) q)) = orNull (sigRoomId q))
       \<and> (status r' \<noteq> Idle \<longrightarrow>
            roomId (fst (handleSignal r' (fst (handleSignal r s p)) q)) = None)
       \<and> (handleSignal r' (fst (handleSignal r s p)) q \<noteq> (fst (handleSignal r s p), []) \<longrightarrow>
            (sigType q = Cancel \<and> receiverId q = uid) \<or>
            ((sigType q = Answer \<or> sigType q = Reject) \<and> callerId q = uid) \<or>
            (sigType q = Offer \<and> receiverId q = uid \<and> status r' = Idle))"
proof -
  let ?s1 = "s\<lparr>caller := Some \<lparr>peer_id = callerId p, peer_name = orElse (callerName p) ''Unknown''\<rparr>,
             roomId := None, isVideoCall := bangBang (isVideo p), status := Incoming\<rparr>"
  have n: "orNull (sigRoomId p) = None"
    using assms(7) by (simp add: orNull_def)
  have s1: "fst (handleSignal r s p) = ?s1"
    using handleSignal_offer [OF assms(1,3,5), of s] assms(4,6) by (simp add: n)
  have acc: "acceptCall ?s1 = (?s1, [])"
    by (simp add: acceptCall_noop_iff)
  have rej: "status (fst (rejectCall ?s1)) = Idle"
    using rejectCall_guarded [of ?s1 _ uid] assms(2,3) by simp
  have msg: "(sigType q = Cancel \<and> receiverId q = uid \<longrightarrow> status (fst (handleSignal r' ?s1 q)) = Idle)
       \<and> (sigType q = Answer \<and> callerId q = uid \<longrightarrow> status (fst (handleSignal r' ?s1 q)) = Connected)
       \<and> (sigType q = Reject \<and> callerId q = uid \<longrightarrow> status (fst (handleSignal r' ?s1 q)) = Idle)
       \<and> (sigType q = Offer \<and> receiverId q = uid \<and> status r' = Idle \<longrightarrow>
            roomId (fst (handleSignal r' ?s1 q)) = orNull (sigRoomId q))
       \<and> (status r' \<noteq> Idle \<longrightarrow> roomId (fst (handleSignal r' ?s1 q)) = None)
       \<and> (handleSignal r' ?s1 q \<noteq> (?s1, []) \<longrightarrow>
            (sigType q = Cancel \<and> receiverId q = uid) \<or>
            ((sigType q = Answer \<or> sigType q = Reject) \<and> callerId q = uid) \<or>
            (sigType q = Offer \<and> receiverId q = uid \<and> status r' = Idle))"
  proof (cases "sigType q")
    case Offer
    from handleSignal_offer [OF assms(8,3) this, of ?s1] show ?thesis using Offer by simp
  next
    case Answer
    from handleSignal_answer [OF assms(8,3) this, of ?s1] show ?thesis using Answer by simp
  next
    case Reject
    from handleSignal_reject [OF assms(8,3) this, of ?s1] show ?thesis using Reject by simp
  next
    case Cancel
    from handleSignal_cancel [OF assms(8,3) this, of ?s1] show ?thesis using Cancel by simp
  qed
  show ?thesis
    unfolding s1 using acc rej msg by (intro conjI) simp_all
qed

text \<open>
  Alice's offer stripped of its room identifier reaches Bob; his handler re-subscribes;
  then Alice cancels.
\<close>

theorem C10_witness:
  "acceptCall (fst (handleSignal (readyState ''u2'' ''Bob'') (readyState ''u2'' ''Bob'')
        (aliceOffer\<lparr>sigRoomId := None\<rparr>))) =
     (fst (handleSignal (readyState ''u2'' ''Bob'') (readyState ''u2'' ''Bob'')
        (aliceOffer\<lparr>sigRoomId := None\<rparr>)), [])
   \<and> status (fst (rejectCall
        (fst (handleSignal (readyState ''u2'' ''Bob'') (readyState ''u2'' ''Bob'')
           (aliceOffer\<lparr>sigRoomId := None\<rparr>))))) = Idle
   \<and> status (fst (handleSignal (bobIncoming\<lparr>roomId := None\<rparr>)
        (fst (handleSignal (readyState ''u2'' ''Bob'') (readyState ''u2'' ''Bob'')
           (aliceOffer\<lparr>sigRoomId := None\<rparr>)))
        aliceCancel)) = Idle
   \<and> roomId (fst (handleSignal (bobIncoming\<lparr>roomId := None\<rparr>)
        (fst (handleSignal (readyState ''u2'' ''Bob'') (readyState ''u2'' ''Bob'')
           (aliceOffer\<lparr>sigRoomId := None\<rparr>)))
        aliceCancel)) = None"
proof -
  let ?s = "readyState ''u2'' ''Bob''" and ?p = "aliceOffer\<lparr>sigRoomId := None\<rparr>"
  let ?r' = "bobIncoming\<lparr>roomId := None\<rparr>"
  have h: "userId ?s = Some ''u2''" "userId ?s = Some ''u2''" "''u2'' \<noteq> []" "status ?s = Idle"
    "sigType ?p = Offer" "receiverId ?p = ''u2''" "\<not> truthy (sigRoomId ?p)"
    "userId ?r' = Some ''u2''"
    by (simp_all add: readyState_def initialState_def aliceOffer_def bobIncoming_eq)
  have q: "sigType aliceCancel = Cancel \<and> receiverId aliceCancel = ''u2''"
    by (simp add: aliceCancel_def)
  have r': "status ?r' \<noteq> Idle"
    by (simp add: bobIncoming_eq)
  from C10_offer_without_room [OF h, of aliceCancel] q r' show ?thesis
    by blast
qed

text \<open>
  In the incoming state without a room, with the handler re-subscribed, a reject naming Bob
  as caller returns his provider to idle, and an answer naming him as caller takes it to
  connected.
\<close>

theorem C10_counterexample:
  "status (bobIncoming\<lparr>roomId := None\<rparr>) = Incoming
   \<and> fst (handleSignal (readyState ''u2'' ''Bob'') (readyState ''u2'' ''Bob'')
        (aliceOffer\<lparr>sigRoomId := None\<rparr>)) = bobIncoming\<lparr>roomId := None\<rparr>
   \<and> status (fst (handleSignal (bobIncoming\<lparr>roomId := None\<rparr>) (bobIncoming\<lparr>roomId := None\<rparr>)
        \<lparr>sigType = Reject, callerId = ''u2'', callerName = None,
         receiverId = ''u3'', receiverName = Some ''Carol'', sigRoomId = None, isVideo = None\<rparr>)) = Idle
   \<and> status (fst (handleSignal (bobIncoming\<lparr>roomId := None\<rparr>) (bobIncoming\<lparr>roomId := None\<rparr>)
        \<lparr>sigType = Answer, callerId = ''u2'', callerName = None,
         receiverId = ''u3'', receiverName = None, sigRoomId = Some ''u2-u3'', isVideo = Some False\<rparr>)) = Connected"
  by (simp add: handleSignal_def offerBranch_def answerBranch_def rejectBranch_def
        cancelBranch_def aliceOffer_def readyState_def initialState_def
        orElse_def orNull_def bangBang_def bobIncoming_eq)

end
